theory Spec2Isabelle
  imports Main
begin

section \<open>Python values and library calls used by \<^verbatim>\<open>streamlit_app.py\<close>\<close>

text \<open>
  The dashboard is one Python module. Its own logic is embedded function by function;
  the libraries it calls (the \<^verbatim>\<open>str\<close> methods, \<^verbatim>\<open>datetime\<close>, pandas, plotly
  and Streamlit) are modelled by the small part of their behaviour that the module uses.
\<close>

datatype py_error = FileNotFoundError | ValueError

subsection \<open>Strings\<close>

text \<open>
  \<^verbatim>\<open>str(n)\<close> for an integer, as an f-string writes it: decimal digits, a minus sign
  for negative numbers.
\<close>

definition digit_char :: "nat \<Rightarrow> char" where
  "digit_char d = char_of (48 + d)"

fun str_nat :: "nat \<Rightarrow> string" where
  "str_nat n = (if n < 10 then [digit_char n] else str_nat (n div 10) @ [digit_char (n mod 10)])"

declare str_nat.simps [simp del]

definition str_int :: "int \<Rightarrow> string" where
  "str_int i = (if i < 0 then CHR ''-'' # str_nat (nat (- i)) else str_nat (nat i))"

text \<open>
  An f-string field holding an optional integer: Python writes \<^verbatim>\<open>None\<close> for the
  absent value.
\<close>

definition py_str :: "int option \<Rightarrow> string" where
  "py_str v = (case v of None \<Rightarrow> ''None'' | Some i \<Rightarrow> str_int i)"

text \<open>
  \<^verbatim>\<open>str.lower\<close> and \<^verbatim>\<open>str.upper\<close> on ASCII text (the gas names of the selector are
  ASCII).
\<close>

definition lower_char :: "char \<Rightarrow> char" where
  "lower_char c =
     (let n = (of_char c :: nat) in if 65 \<le> n \<and> n \<le> 90 then char_of (n + 32) else c)"

definition upper_char :: "char \<Rightarrow> char" where
  "upper_char c =
     (let n = (of_char c :: nat) in if 97 \<le> n \<and> n \<le> 122 then char_of (n - 32) else c)"

definition lower :: "string \<Rightarrow> string" where
  "lower s = map lower_char s"

definition upper :: "string \<Rightarrow> string" where
  "upper s = map upper_char s"

text \<open>Truth value of an optional integer in a condition: \<^verbatim>\<open>None\<close> and \<^verbatim>\<open>0\<close> are false.\<close>

definition truthy :: "int option \<Rightarrow> bool" where
  "truthy v = (case v of None \<Rightarrow> False | Some i \<Rightarrow> i \<noteq> 0)"

subsection \<open>Calendar dates\<close>

text \<open>
  A calendar date, as far as the module reads one: pandas' \<^verbatim>\<open>.dt.year\<close> and
  \<^verbatim>\<open>.dt.month\<close>, and the month of a \<^verbatim>\<open>datetime\<close>.
\<close>

record timestamp =
  ts_year :: int
  ts_month :: int
  ts_day :: int

definition is_leap :: "int \<Rightarrow> bool" where
  "is_leap y = (y mod 4 = 0 \<and> (y mod 100 \<noteq> 0 \<or> y mod 400 = 0))"

definition days_in_month :: "int \<Rightarrow> int \<Rightarrow> int" where
  "days_in_month y m =
     (if m = 2 then (if is_leap y then 29 else 28)
      else if m = 4 \<or> m = 6 \<or> m = 9 \<or> m = 11 then 30 else 31)"

text \<open>
  The constructor \<^verbatim>\<open>datetime(year, month, day)\<close>: it raises \<^verbatim>\<open>ValueError\<close> unless
  the year is in 1..9999, the month in 1..12 and the day in the month.
\<close>

definition datetime :: "int \<Rightarrow> int \<Rightarrow> int \<Rightarrow> py_error + timestamp" where
  "datetime y m d =
     (if 1 \<le> y \<and> y \<le> 9999 \<and> 1 \<le> m \<and> m \<le> 12 \<and> 1 \<le> d \<and> d \<le> days_in_month y m
      then Inr \<lparr>ts_year = y, ts_month = m, ts_day = d\<rparr>
      else Inl ValueError)"

definition month_names :: "string list" where
  "month_names =
     [''January'', ''February'', ''March'', ''April'', ''May'', ''June'',
      ''July'', ''August'', ''September'', ''October'', ''November'', ''December'']"

text \<open>
  \<^verbatim>\<open>strftime('%B')\<close>: the full month name, in English in the default locale (the
  module sets none). A \<^verbatim>\<open>datetime\<close> object exists only with a month in 1..12 (the
  constructor above), so the index is in range.
\<close>

definition strftime_B :: "timestamp \<Rightarrow> string" where
  "strftime_B t = month_names ! nat (ts_month t - 1)"

subsection \<open>The dataframe\<close>

text \<open>
  A cell of the \<^verbatim>\<open>date\<close> column: the text read from the CSV file, a parsed
  timestamp, or the missing value \<^verbatim>\<open>NaT\<close>. A row has the three columns the module
  reads and the \<^verbatim>\<open>year\<close> column it adds (\<open>None\<close> while the column is absent or the
  value is missing). The measurements have any type \<open>'v\<close>: the module only passes them
  on to the chart.
\<close>

datatype date_cell = Text string | Stamp timestamp | NaT

record 'v row =
  col_date :: date_cell
  col_Alt_Mean :: 'v
  col_std_CO2 :: 'v
  col_year :: "int option"

type_synonym 'v dataframe = "'v row list"

text \<open>
  \<^verbatim>\<open>pd.to_datetime(..., errors='coerce')\<close> on one cell. The parser of pandas is a
  parameter \<open>parse\<close>: text that does not parse becomes \<^verbatim>\<open>NaT\<close>, a timestamp stays.
\<close>

definition to_datetime :: "(string \<Rightarrow> timestamp option) \<Rightarrow> date_cell \<Rightarrow> date_cell" where
  "to_datetime parse c =
     (case c of
        Text s \<Rightarrow> (case parse s of Some t \<Rightarrow> Stamp t | None \<Rightarrow> NaT)
      | Stamp t \<Rightarrow> Stamp t
      | NaT \<Rightarrow> NaT)"

definition dt_year :: "date_cell \<Rightarrow> int option" where
  "dt_year c = (case c of Stamp t \<Rightarrow> Some (ts_year t) | _ \<Rightarrow> None)"

definition dt_month :: "date_cell \<Rightarrow> int option" where
  "dt_month c = (case c of Stamp t \<Rightarrow> Some (ts_month t) | _ \<Rightarrow> None)"

subsection \<open>Figures, screen events and the store\<close>

datatype chart = Line | Scatter

record 'v figure =
  fig_chart :: chart
  fig_data :: "'v dataframe"
  fig_x :: string
  fig_y :: string
  fig_title :: string

definition px_line :: "'v dataframe \<Rightarrow> string \<Rightarrow> string \<Rightarrow> string \<Rightarrow> 'v figure" where
  "px_line df x y title =
     \<lparr>fig_chart = Line, fig_data = df, fig_x = x, fig_y = y, fig_title = title\<rparr>"

definition px_scatter :: "'v dataframe \<Rightarrow> string \<Rightarrow> string \<Rightarrow> string \<Rightarrow> 'v figure" where
  "px_scatter df x y title =
     \<lparr>fig_chart = Scatter, fig_data = df, fig_x = x, fig_y = y, fig_title = title\<rparr>"

text \<open>
  What a run does to the outside, in order: the Streamlit calls, and the files the
  loader opens.
\<close>

datatype 'v event =
    Title string
  | Selectbox string
  | Info string
  | Error string
  | Warning string
  | Plotly_chart "'v figure" bool
  | Write string
  | Open_file string

text \<open>
  Dataframes are objects: a variable holds a reference, and a function that is passed
  one sees the same object as its caller. The store maps references to dataframes;
  \<open>next_ref\<close> is the first reference not yet in use.
\<close>

record 'v state =
  heap :: "nat \<Rightarrow> 'v dataframe"
  next_ref :: nat
  trace :: "'v event list"

definition emit :: "'v event \<Rightarrow> 'v state \<Rightarrow> 'v state" where
  "emit e st = st\<lparr>trace := trace st @ [e]\<rparr>"

definition new_frame :: "'v dataframe \<Rightarrow> 'v state \<Rightarrow> nat \<times> 'v state" where
  "new_frame df st =
     (next_ref st, st\<lparr>heap := (heap st)(next_ref st := df), next_ref := Suc (next_ref st)\<rparr>)"

text \<open>The three statements that open every draw function; each changes the object in place.\<close>

definition assign_date :: "(string \<Rightarrow> timestamp option) \<Rightarrow> nat \<Rightarrow> 'v state \<Rightarrow> 'v state" where
  \<comment> \<open>\<^verbatim>\<open>df['date'] = pd.to_datetime(df['date'], errors='coerce')\<close>\<close>
  "assign_date parse df st =
     st\<lparr>heap := (heap st)
        (df := map (\<lambda>r. r\<lparr>col_date := to_datetime parse (col_date r)\<rparr>) (heap st df))\<rparr>"

definition dropna_date :: "nat \<Rightarrow> 'v state \<Rightarrow> 'v state" where
  \<comment> \<open>\<^verbatim>\<open>df.dropna(subset=['date'], inplace=True)\<close>\<close>
  "dropna_date df st =
     st\<lparr>heap := (heap st)(df := filter (\<lambda>r. col_date r \<noteq> NaT) (heap st df))\<rparr>"

definition assign_year :: "nat \<Rightarrow> 'v state \<Rightarrow> 'v state" where
  \<comment> \<open>\<^verbatim>\<open>df['year'] = df['date'].dt.year\<close>\<close>
  "assign_year df st =
     st\<lparr>heap := (heap st)(df := map (\<lambda>r. r\<lparr>col_year := dt_year (col_date r)\<rparr>) (heap st df))\<rparr>"

section \<open>The selectors\<close>

text \<open>
  \<^verbatim>\<open>st.selectbox(label, options)\<close> draws the widget and returns the option the user
  has picked. The pick is an input of the run, given as a position in the option list;
  Streamlit only ever returns one of the options, and starts at the first one.
\<close>

definition selectbox :: "string \<Rightarrow> 'a list \<Rightarrow> nat \<Rightarrow> 'v state \<Rightarrow> 'a \<times> 'v state" where
  "selectbox label options pick st =
     ((if pick < length options then options ! pick else hd options), emit (Selectbox label) st)"

record picks =
  gas_pick :: nat
  year_pick :: nat
  month_pick :: nat

definition select_gas :: "nat \<Rightarrow> 'v state \<Rightarrow> string \<times> 'v state" where
  "select_gas pick st =
     (let (selected_gas, st) = selectbox ''Select Gas'' [''Select Gas'', ''CO2''] pick st
      in (lower selected_gas, st))"

text \<open>
  The year options mix one string with integers. \<open>now_year\<close> is
  \<^verbatim>\<open>datetime.now().year\<close>. The only string among the options is the placeholder,
  so the value returned is an integer or \<^verbatim>\<open>None\<close>.
\<close>

datatype year_option = Label string | Year int

definition select_year :: "int \<Rightarrow> nat \<Rightarrow> 'v state \<Rightarrow> int option \<times> 'v state" where
  "select_year now_year pick st =
     (let (selected_year, st) =
        selectbox ''Select Year'' (Label ''Select Year'' # map Year [2000..now_year]) pick st
      in ((if selected_year \<noteq> Label ''Select Year''
           then (case selected_year of Year y \<Rightarrow> Some y | Label s \<Rightarrow> None)
           else None), st))"

definition month_dict :: "(string \<times> int) list" where
  "month_dict =
     [(''Jan'', 1), (''Feb'', 2), (''Mar'', 3), (''Apr'', 4),
      (''May'', 5), (''Jun'', 6), (''Jul'', 7), (''Aug'', 8),
      (''Sep'', 9), (''Oct'', 10), (''Nov'', 11), (''Dec'', 12)]"

definition select_month :: "nat \<Rightarrow> 'v state \<Rightarrow> int option \<times> 'v state" where
  "select_month pick st =
     (let (selected_month, st) =
        selectbox ''Select Month''
          [''Select Month'', ''Jan'', ''Feb'', ''Mar'', ''Apr'', ''May'', ''Jun'', ''Jul'',
           ''Aug'', ''Sep'', ''Oct'', ''Nov'', ''Dec''] pick st
      in (map_of month_dict selected_month, st))"

section \<open>Dataset retrieval\<close>

text \<open>
  Modelled from the spec: \<^verbatim>\<open>data_reader\<close> of module \<^verbatim>\<open>read_data\<close>, which is not
  among the sources. It is the external CSV loader: it opens the file at the path and
  returns its table as a new dataframe, and fails with a "not found" condition when no
  file is there. \<open>fs\<close> gives the table stored at each path.
\<close>

definition data_reader ::
  "(string \<rightharpoonup> 'v dataframe) \<Rightarrow> string \<Rightarrow> 'v state \<Rightarrow> (py_error + nat) \<times> 'v state" where
  "data_reader fs file_path st =
     (let st = emit (Open_file file_path) st
      in case fs file_path of
           None \<Rightarrow> (Inl FileNotFoundError, st)
         | Some table \<Rightarrow> (let (df, st) = new_frame table st in (Inr df, st)))"

definition get_data_source ::
  "(string \<rightharpoonup> 'v dataframe) \<Rightarrow> string \<Rightarrow> 'v state \<Rightarrow> (py_error + nat option) \<times> 'v state" where
  "get_data_source fs selected_gas st =
     (let file_path = ''data/'' @ selected_gas @ ''.csv''
      in if selected_gas = ''select gas'' then (Inr None, st)
         else (case data_reader fs file_path st of
                 (Inr df, st) \<Rightarrow> (Inr (Some df), st)
               | (Inl FileNotFoundError, st) \<Rightarrow>
                   (Inr None, emit (Error (''No file found for '' @ selected_gas)) st)
               | (Inl e, st) \<Rightarrow> (Inl e, st)))"

section \<open>Story generation\<close>

definition generate_story ::
  "'v dataframe \<Rightarrow> string \<Rightarrow> int option \<Rightarrow> int option \<Rightarrow> string option \<Rightarrow> py_error + string" where
  "generate_story df selected_gas selected_year selected_month chart_type =
     (let total_rows = length df;
          gas_name = upper selected_gas;
          story_type =
            (if chart_type = Some ''line'' then ''Line Chart''
             else if chart_type = Some ''scatter'' then ''Scatter Plot''
             else if chart_type = Some ''std_scatter'' then ''Standard Deviation Scatter Plot''
             else ''Data Overview'')
      in if truthy selected_year \<and> truthy selected_month then
           (case datetime 2000 (the selected_month) 1 of
              Inl e \<Rightarrow> Inl e
            | Inr d \<Rightarrow>
                Inr (''The '' @ story_type @ '' represents the concentration of '' @ gas_name
                  @ '' during '' @ strftime_B d @ '' '' @ py_str selected_year
                  @ ''. The dataset contains '' @ str_nat total_rows
                  @ '' data points for this time period, showing how the concentration of ''
                  @ gas_name @ '' varied across this month.''))
         else if truthy selected_year then
           Inr (''The '' @ story_type @ '' highlights the '' @ gas_name
             @ '' levels recorded in '' @ py_str selected_year @ ''. There are ''
             @ str_nat total_rows @ '' data points representing '' @ gas_name
             @ '' concentration changes over the year. ''
             @ ''This visualization captures the yearly fluctuation and trends in gas concentration.'')
         else
           Inr (''The '' @ story_type @ '' covers the full dataset with '' @ str_nat total_rows
             @ '' records for '' @ gas_name @ ''. ''
             @ ''This chart provides a comprehensive overview of {gas_name} concentrations over the entire recorded ''
             @ ''period, allowing us to observe both seasonal and longer-term trends.''))"

text \<open>
  \<^verbatim>\<open>st.write(generate_story(...))\<close>: an exception of the story leaves the draw
  function before anything is written.
\<close>

definition write_story :: "py_error + string \<Rightarrow> 'v state \<Rightarrow> py_error option \<times> 'v state" where
  "write_story story st =
     (case story of Inl e \<Rightarrow> (Some e, st) | Inr text \<Rightarrow> (None, emit (Write text) st))"

section \<open>The three chart pipelines\<close>

text \<open>
  Each draw function gets a reference \<open>df\<close> to the caller's dataframe. The branches are
  those of the \<^verbatim>\<open>if\<close>/\<^verbatim>\<open>elif\<close> chain, which tests which of the year and the month is
  \<^verbatim>\<open>None\<close>; the chain has no \<^verbatim>\<open>else\<close>, so with a month and no year no branch is
  taken. \<^verbatim>\<open>df[mask]\<close> builds a new dataframe.
\<close>

definition draw_time_series ::
  "(string \<Rightarrow> timestamp option) \<Rightarrow> nat \<Rightarrow> string \<Rightarrow> int option \<Rightarrow> int option \<Rightarrow> 'v state
     \<Rightarrow> py_error option \<times> 'v state" where
  "draw_time_series parse df selected_gas selected_year selected_month st =
     (let st = assign_date parse df st;
          st = dropna_date df st;
          st = assign_year df st
      in case (selected_year, selected_month) of
           (None, None) \<Rightarrow>
             (let fig = px_line (heap st df) ''date'' ''Alt_Mean'' ''Full Dataset: Alt_Mean Over Time'';
                  st = emit (Plotly_chart fig True) st
              in write_story (generate_story (heap st df) selected_gas None None (Some ''line'')) st)
         | (Some y, None) \<Rightarrow>
             (let (filtered_df, st) = new_frame (filter (\<lambda>r. col_year r = Some y) (heap st df)) st
              in if heap st filtered_df \<noteq> [] then
                   (let fig = px_line (heap st filtered_df) ''date'' ''Alt_Mean''
                                (''Alt_Mean Over Time in '' @ py_str selected_year);
                        st = emit (Plotly_chart fig True) st
                    in write_story
                         (generate_story (heap st filtered_df) selected_gas selected_year None
                            (Some ''line'')) st)
                 else (None, emit (Warning ''No data available for the selected year.'') st))
         | (Some y, Some m) \<Rightarrow>
             (let (filtered_df, st) =
                    new_frame (filter (\<lambda>r. col_year r = Some y \<and> dt_month (col_date r) = Some m)
                                 (heap st df)) st
              in if heap st filtered_df \<noteq> [] then
                   (let fig = px_line (heap st filtered_df) ''date'' ''std CO2''
                                (''Standard Deviation of CO2 in '' @ py_str selected_month @ '' ''
                                   @ py_str selected_year);
                        st = emit (Plotly_chart fig True) st
                    in write_story
                         (generate_story (heap st filtered_df) selected_gas selected_year
                            selected_month (Some ''line'')) st)
                 else (None, emit (Warning ''No data available for the selected month and year.'') st))
         | (None, Some m) \<Rightarrow> (None, st))"

definition draw_scatter_plot ::
  "(string \<Rightarrow> timestamp option) \<Rightarrow> nat \<Rightarrow> string \<Rightarrow> int option \<Rightarrow> int option \<Rightarrow> 'v state
     \<Rightarrow> py_error option \<times> 'v state" where
  "draw_scatter_plot parse df selected_gas selected_year selected_month st =
     (let st = assign_date parse df st;
          st = dropna_date df st;
          st = assign_year df st
      in case (selected_year, selected_month) of
           (None, None) \<Rightarrow>
             (let fig = px_scatter (heap st df) ''date'' ''Alt_Mean'' ''Full Dataset: Alt_Mean Over Time'';
                  st = emit (Plotly_chart fig True) st
              in write_story (generate_story (heap st df) selected_gas None None (Some ''scatter'')) st)
         | (Some y, None) \<Rightarrow>
             (let (filtered_df, st) = new_frame (filter (\<lambda>r. col_year r = Some y) (heap st df)) st
              in if heap st filtered_df \<noteq> [] then
                   (let fig = px_scatter (heap st filtered_df) ''date'' ''Alt_Mean''
                                (''Alt_Mean Over Time in '' @ py_str selected_year);
                        st = emit (Plotly_chart fig True) st
                    in write_story
                         (generate_story (heap st filtered_df) selected_gas selected_year None
                            (Some ''scatter'')) st)
                 else (None, emit (Warning ''No data available for the selected year.'') st))
         | (Some y, Some m) \<Rightarrow>
             (let (filtered_df, st) =
                    new_frame (filter (\<lambda>r. col_year r = Some y \<and> dt_month (col_date r) = Some m)
                                 (heap st df)) st
              in if heap st filtered_df \<noteq> [] then
                   (let fig = px_scatter (heap st filtered_df) ''date'' ''Alt_Mean''
                                (''Alt_Mean Over Time in '' @ py_str selected_month @ '' ''
                                   @ py_str selected_year);
                        st = emit (Plotly_chart fig True) st
                    in write_story
                         (generate_story (heap st filtered_df) selected_gas selected_year
                            selected_month (Some ''scatter'')) st)
                 else (None, emit (Warning ''No data available for the selected month and year.'') st))
         | (None, Some m) \<Rightarrow> (None, st))"

definition draw_std_co2_scatter_plot ::
  "(string \<Rightarrow> timestamp option) \<Rightarrow> nat \<Rightarrow> string \<Rightarrow> int option \<Rightarrow> int option \<Rightarrow> 'v state
     \<Rightarrow> py_error option \<times> 'v state" where
  "draw_std_co2_scatter_plot parse df selected_gas selected_year selected_month st =
     (let st = assign_date parse df st;
          st = dropna_date df st;
          st = assign_year df st
      in case (selected_year, selected_month) of
           (None, None) \<Rightarrow>
             (let fig = px_scatter (heap st df) ''date'' ''std CO2'' ''Full Dataset: std CO2 Over Time'';
                  st = emit (Plotly_chart fig True) st
              in write_story (generate_story (heap st df) selected_gas None None (Some ''std_scatter'')) st)
         | (Some y, None) \<Rightarrow>
             (let (filtered_df, st) = new_frame (filter (\<lambda>r. col_year r = Some y) (heap st df)) st
              in if heap st filtered_df \<noteq> [] then
                   (let fig = px_scatter (heap st filtered_df) ''date'' ''std CO2''
                                (''std CO2 Over Time in '' @ py_str selected_year);
                        st = emit (Plotly_chart fig True) st
                    in write_story
                         (generate_story (heap st filtered_df) selected_gas selected_year None
                            (Some ''std_scatter'')) st)
                 else (None, emit (Warning ''No data available for the selected year.'') st))
         | (Some y, Some m) \<Rightarrow>
             (let (filtered_df, st) =
                    new_frame (filter (\<lambda>r. col_year r = Some y \<and> dt_month (col_date r) = Some m)
                                 (heap st df)) st
              in if heap st filtered_df \<noteq> [] then
                   (let fig = px_scatter (heap st filtered_df) ''date'' ''std CO2''
                                (''std CO2 Over Time in '' @ py_str selected_month @ '' ''
                                   @ py_str selected_year);
                        st = emit (Plotly_chart fig True) st
                    in write_story
                         (generate_story (heap st filtered_df) selected_gas selected_year
                            selected_month (Some ''std_scatter'')) st)
                 else (None, emit (Warning ''No data available for the selected month and year.'') st))
         | (None, Some m) \<Rightarrow> (None, st))"

section \<open>The orchestrator\<close>

text \<open>
  One run of the script. An exception that nothing catches ends the run: the result
  holds it, with the state reached.
\<close>

definition main ::
  "(string \<rightharpoonup> 'v dataframe) \<Rightarrow> (string \<Rightarrow> timestamp option) \<Rightarrow> int \<Rightarrow> picks \<Rightarrow> 'v state
     \<Rightarrow> py_error option \<times> 'v state" where
  "main fs parse now_year user st =
     (let st = emit (Title ''Atmospheric Gases Concentration Dashboard'') st;
          (selected_gas, st) = select_gas (gas_pick user) st;
          (selected_year, st) = select_year now_year (year_pick user) st;
          (selected_month, st) = select_month (month_pick user) st
      in if selected_gas = ''select gas'' then
           (None, emit (Info ''Please select a gas to start.'') st)
         else
           (case get_data_source fs selected_gas st of
              (Inl e, st) \<Rightarrow> (Some e, st)
            | (Inr None, st) \<Rightarrow> (None, st)
            | (Inr (Some df), st) \<Rightarrow>
                (case draw_time_series parse df selected_gas selected_year selected_month st of
                   (Some e, st) \<Rightarrow> (Some e, st)
                 | (None, st) \<Rightarrow>
                     (case draw_scatter_plot parse df selected_gas selected_year selected_month st of
                        (Some e, st) \<Rightarrow> (Some e, st)
                      | (None, st) \<Rightarrow>
                          draw_std_co2_scatter_plot parse df selected_gas selected_year
                            selected_month st))))"

section \<open>Vocabulary of the properties\<close>

subsection \<open>The cleaned dataset and the rows a selection matches\<close>

text \<open>
  What the three opening statements of a draw function amount to, row by row: a row whose
  date parses keeps its place, with the date as a timestamp and the year derived from it;
  a row whose date does not parse goes.
\<close>

definition clean_row :: "(string \<Rightarrow> timestamp option) \<Rightarrow> 'v row \<Rightarrow> 'v row" where
  "clean_row parse r =
     r\<lparr>col_date := to_datetime parse (col_date r),
       col_year := dt_year (to_datetime parse (col_date r))\<rparr>"

definition date_parses :: "(string \<Rightarrow> timestamp option) \<Rightarrow> 'v row \<Rightarrow> bool" where
  "date_parses parse r = (to_datetime parse (col_date r) \<noteq> NaT)"

definition cleaned :: "(string \<Rightarrow> timestamp option) \<Rightarrow> 'v dataframe \<Rightarrow> 'v dataframe" where
  "cleaned parse rows = map (clean_row parse) (filter (date_parses parse) rows)"

text \<open>
  A row matches a selected year \<open>y\<close> (and month, when \<open>m\<close> is one) when its date parses,
  the year of the parsed date is \<open>y\<close> and, with a month selected, the month of the parsed
  date is that month.
\<close>

definition matches :: "(string \<Rightarrow> timestamp option) \<Rightarrow> int \<Rightarrow> int option \<Rightarrow> 'v row \<Rightarrow> bool" where
  "matches parse y m r =
     (date_parses parse r \<and> dt_year (to_datetime parse (col_date r)) = Some y \<and>
      (case m of None \<Rightarrow> True | Some k \<Rightarrow> dt_month (to_datetime parse (col_date r)) = Some k))"

definition matching_rows ::
  "(string \<Rightarrow> timestamp option) \<Rightarrow> int \<Rightarrow> int option \<Rightarrow> 'v dataframe \<Rightarrow> 'v dataframe" where
  "matching_rows parse y m rows = map (clean_row parse) (filter (matches parse y m) rows)"

subsection \<open>Reading a trace\<close>

text \<open>The figures handed to the chart renderer, in order.\<close>

fun charts :: "'v event list \<Rightarrow> 'v figure list" where
  "charts [] = []"
| "charts (Plotly_chart fig b # es) = fig # charts es"
| "charts (e # es) = charts es"

subsection \<open>Decimal numerals, read back\<close>

text \<open>
  The number a decimal numeral stands for: \<open>str_nat\<close> has a left inverse, so different
  counts are written differently (lemma \<open>str_nat_inject\<close>).
\<close>

definition digit_val :: "char \<Rightarrow> nat" where
  "digit_val c = of_char c - 48"

definition nat_of_str :: "string \<Rightarrow> nat" where
  "nat_of_str s = foldl (\<lambda>a c. 10 * a + digit_val c) 0 s"

subsection \<open>What one pipeline does, as a function of the table it is given\<close>

text \<open>
  The three draw functions differ in the chart constructor, the y-axis column of each
  branch, the titles and the chart type handed to the story. \<open>pipeline_events\<close> lists
  the events of a call, \<open>pipeline_error\<close> the exception that ends it, if any, and
  \<open>pipeline_store\<close> the store it leaves; the lemmas \<open>draw_time_series_eq\<close>,
  \<open>draw_scatter_plot_eq\<close> and \<open>draw_std_co2_scatter_plot_eq\<close> below show that each draw
  function is an instance.
\<close>

definition story_events :: "py_error + string \<Rightarrow> 'v event list" where
  "story_events story = (case story of Inl e \<Rightarrow> [] | Inr text \<Rightarrow> [Write text])"

definition story_error :: "py_error + string \<Rightarrow> py_error option" where
  "story_error story = (case story of Inl e \<Rightarrow> Some e | Inr text \<Rightarrow> None)"

definition pipeline_events ::
  "('v dataframe \<Rightarrow> string \<Rightarrow> string \<Rightarrow> string \<Rightarrow> 'v figure) \<Rightarrow> string \<Rightarrow> string \<Rightarrow> string \<Rightarrow>
   string \<Rightarrow> string \<Rightarrow> string \<Rightarrow> string \<Rightarrow>
   (string \<Rightarrow> timestamp option) \<Rightarrow> string \<Rightarrow> int option \<Rightarrow> int option \<Rightarrow> 'v dataframe \<Rightarrow>
   'v event list" where
  "pipeline_events px y0 y1 y2 t0 t1 t2 ct parse gas selected_year selected_month table =
     (case (selected_year, selected_month) of
        (None, None) \<Rightarrow>
          Plotly_chart (px (cleaned parse table) ''date'' y0 t0) True
            # story_events (generate_story (cleaned parse table) gas None None (Some ct))
      | (Some y, None) \<Rightarrow>
          (if matching_rows parse y None table \<noteq> [] then
             Plotly_chart (px (matching_rows parse y None table) ''date'' y1 (t1 @ str_int y)) True
               # story_events
                   (generate_story (matching_rows parse y None table) gas (Some y) None (Some ct))
           else [Warning ''No data available for the selected year.''])
      | (Some y, Some m) \<Rightarrow>
          (if matching_rows parse y (Some m) table \<noteq> [] then
             Plotly_chart (px (matching_rows parse y (Some m) table) ''date'' y2
                             (t2 @ str_int m @ '' '' @ str_int y)) True
               # story_events
                   (generate_story (matching_rows parse y (Some m) table) gas (Some y) (Some m)
                      (Some ct))
           else [Warning ''No data available for the selected month and year.''])
      | (None, Some m) \<Rightarrow> [])"

definition pipeline_error ::
  "string \<Rightarrow> (string \<Rightarrow> timestamp option) \<Rightarrow> string \<Rightarrow> int option \<Rightarrow> int option \<Rightarrow> 'v dataframe \<Rightarrow>
   py_error option" where
  "pipeline_error ct parse gas selected_year selected_month table =
     (case (selected_year, selected_month) of
        (None, None) \<Rightarrow> story_error (generate_story (cleaned parse table) gas None None (Some ct))
      | (Some y, None) \<Rightarrow>
          (if matching_rows parse y None table \<noteq> [] then
             story_error
               (generate_story (matching_rows parse y None table) gas (Some y) None (Some ct))
           else None)
      | (Some y, Some m) \<Rightarrow>
          (if matching_rows parse y (Some m) table \<noteq> [] then
             story_error
               (generate_story (matching_rows parse y (Some m) table) gas (Some y) (Some m)
                  (Some ct))
           else None)
      | (None, Some m) \<Rightarrow> None)"

definition pipeline_store ::
  "(string \<Rightarrow> timestamp option) \<Rightarrow> nat \<Rightarrow> int option \<Rightarrow> int option \<Rightarrow> 'v state \<Rightarrow> 'v state" where
  "pipeline_store parse p selected_year selected_month st =
     (case selected_year of
        None \<Rightarrow> st\<lparr>heap := (heap st)(p := cleaned parse (heap st p))\<rparr>
      | Some y \<Rightarrow>
          st\<lparr>heap := (heap st)
                (p := cleaned parse (heap st p),
                 next_ref st := matching_rows parse y selected_month (heap st p)),
             next_ref := Suc (next_ref st)\<rparr>)"

subsection \<open>The values of the selectors\<close>

text \<open>
  What \<open>select_year\<close> and \<open>select_month\<close> return for a pick; it does not depend on the
  state they are run in (lemmas \<open>select_year_eq\<close> and \<open>select_month_eq\<close>).
\<close>

definition picked_year :: "int \<Rightarrow> nat \<Rightarrow> int option" where
  "picked_year now_year pick =
     fst (select_year now_year pick (\<lparr>heap = \<lambda>_. [], next_ref = 0, trace = []\<rparr> :: unit state))"

definition picked_month :: "nat \<Rightarrow> int option" where
  "picked_month pick =
     fst (select_month pick (\<lparr>heap = \<lambda>_. [], next_ref = 0, trace = []\<rparr> :: unit state))"

subsection \<open>An example dataset\<close>

text \<open>
  Three dated rows (2015-01-01, 2015-06-15, 2016-02-10) and one row whose date does not
  parse, stored at reference 0 and in the file \<^verbatim>\<open>data/co2.csv\<close>.
\<close>

definition example_parse :: "string \<Rightarrow> timestamp option" where
  "example_parse = map_of
     [(''2015-01-01'', \<lparr>ts_year = 2015, ts_month = 1, ts_day = 1\<rparr>),
      (''2015-06-15'', \<lparr>ts_year = 2015, ts_month = 6, ts_day = 15\<rparr>),
      (''2016-02-10'', \<lparr>ts_year = 2016, ts_month = 2, ts_day = 10\<rparr>)]"

definition example_table :: "int dataframe" where
  "example_table =
     [\<lparr>col_date = Text ''2015-01-01'', col_Alt_Mean = 400, col_std_CO2 = 1, col_year = None\<rparr>,
      \<lparr>col_date = Text ''n/a'', col_Alt_Mean = 0, col_std_CO2 = 0, col_year = None\<rparr>,
      \<lparr>col_date = Text ''2015-06-15'', col_Alt_Mean = 402, col_std_CO2 = 2, col_year = None\<rparr>,
      \<lparr>col_date = Text ''2016-02-10'', col_Alt_Mean = 404, col_std_CO2 = 3, col_year = None\<rparr>]"

definition example_state :: "int state" where
  "example_state = \<lparr>heap = (\<lambda>_. [])(0 := example_table), next_ref = 1, trace = []\<rparr>"

definition example_fs :: "string \<rightharpoonup> int dataframe" where
  "example_fs = [''data/co2.csv'' \<mapsto> example_table]"

definition empty_state :: "int state" where
  "empty_state = \<lparr>heap = (\<lambda>_. []), next_ref = 0, trace = []\<rparr>"

section \<open>Auxiliary lemmas\<close>

subsection \<open>Decimal numerals\<close>

lemma str_nat_digit: "n < 10 \<Longrightarrow> str_nat n = [digit_char n]"
  by (simp add: str_nat.simps [of n])

lemma str_nat_step: "10 \<le> n \<Longrightarrow> str_nat n = str_nat (n div 10) @ [digit_char (n mod 10)]"
  by (simp add: str_nat.simps [of n])

lemma digit_val_digit_char: "d < 10 \<Longrightarrow> digit_val (digit_char d) = d"
  by (simp add: digit_val_def digit_char_def)

lemma nat_of_str_str_nat: "nat_of_str (str_nat n) = n"
proof (induction n rule: str_nat.induct)
  case (1 n)
  show ?case
  proof (cases "n < 10")
    case True
    then show ?thesis
      by (simp add: str_nat.simps [of n] nat_of_str_def digit_val_digit_char)
  next
    case False
    with 1 have "nat_of_str (str_nat (n div 10)) = n div 10" by simp
    with False show ?thesis
      by (simp add: str_nat.simps [of n] nat_of_str_def digit_val_digit_char)
  qed
qed

lemma str_nat_inject: "str_nat a = str_nat b \<Longrightarrow> a = b"
  by (metis nat_of_str_str_nat)

subsection \<open>The gas names\<close>

lemma gas_names_lower:
  "lower ''Select Gas'' = ''select gas''" "lower ''CO2'' = ''co2''" "upper ''co2'' = ''CO2''"
  by (simp_all add: upper_def upper_char_def lower_def lower_char_def char_of_eq_iff)

subsection \<open>Cleaning and filtering\<close>

lemma prelude_in_place:
  "assign_year p (dropna_date p (assign_date parse p st)) =
     st\<lparr>heap := (heap st)(p := cleaned parse (heap st p))\<rparr>"
proof -
  have clean: "map (\<lambda>r. r\<lparr>col_year := dt_year (col_date r)\<rparr>)
          (filter (\<lambda>r. col_date r \<noteq> NaT)
             (map (\<lambda>r. r\<lparr>col_date := to_datetime parse (col_date r)\<rparr>) rows)) =
        cleaned parse rows" for rows :: "'v dataframe"
    by (induction rows) (simp_all add: cleaned_def clean_row_def date_parses_def)
  show ?thesis
    by (simp add: assign_year_def dropna_date_def assign_date_def clean)
qed

lemma filter_year_cleaned:
  "filter (\<lambda>r. col_year r = Some y) (cleaned parse rows) = matching_rows parse y None rows"
  by (induction rows) (simp_all add: cleaned_def matching_rows_def matches_def clean_row_def)

lemma filter_year_month_cleaned:
  "filter (\<lambda>r. col_year r = Some y \<and> dt_month (col_date r) = Some k) (cleaned parse rows) =
     matching_rows parse y (Some k) rows"
  by (induction rows) (simp_all add: cleaned_def matching_rows_def matches_def clean_row_def)

lemma to_datetime_idem: "to_datetime parse (to_datetime parse c) = to_datetime parse c"
  by (simp add: to_datetime_def split: date_cell.splits option.splits)

lemma cleaned_idem: "cleaned parse (cleaned parse rows) = cleaned parse rows"
  by (induction rows) (simp_all add: cleaned_def clean_row_def date_parses_def to_datetime_idem)

subsection \<open>Stories\<close>

lemma datetime_2000_month:
  "1 \<le> k \<Longrightarrow> k \<le> 12 \<Longrightarrow> datetime 2000 k 1 = Inr \<lparr>ts_year = 2000, ts_month = k, ts_day = 1\<rparr>"
  by (simp add: datetime_def days_in_month_def)

lemma generate_story_ok:
  assumes "case m of None \<Rightarrow> True | Some k \<Rightarrow> 1 \<le> k \<and> k \<le> 12"
  shows "story_error (generate_story df gas y m ct) = None"
proof (cases m)
  case None
  then show ?thesis
    by (simp add: generate_story_def story_error_def truthy_def Let_def)
next
  case (Some k)
  with assms have "datetime 2000 k 1 = Inr \<lparr>ts_year = 2000, ts_month = k, ts_day = 1\<rparr>"
    by (simp add: datetime_2000_month)
  with Some show ?thesis
    by (simp add: generate_story_def story_error_def Let_def)
qed

lemma month_names_table:
  "map (\<lambda>k. case datetime 2000 k 1 of Inl e \<Rightarrow> Inl e | Inr d \<Rightarrow> Inr (strftime_B d)) [1..12] =
     map Inr [''January'', ''February'', ''March'', ''April'', ''May'', ''June'',
              ''July'', ''August'', ''September'', ''October'', ''November'', ''December'']"
  by (simp add: upto_rec1 datetime_def days_in_month_def strftime_B_def month_names_def)

subsection \<open>Each draw function is an instance of the pipeline\<close>

lemma charts_append: "charts (xs @ ys) = charts xs @ charts ys"
  by (induction xs rule: charts.induct) simp_all

lemma write_story_eq:
  "write_story story st = (story_error story, st\<lparr>trace := trace st @ story_events story\<rparr>)"
  by (simp add: write_story_def story_events_def story_error_def emit_def split: sum.splits)

lemmas draw_unfold =
  prelude_in_place pipeline_events_def pipeline_error_def pipeline_store_def write_story_eq
  new_frame_def emit_def filter_year_cleaned filter_year_month_cleaned py_str_def

lemma draw_time_series_eq:
  "draw_time_series parse p gas y m st =
     (pipeline_error ''line'' parse gas y m (heap st p),
      (pipeline_store parse p y m st)
        \<lparr>trace := trace st @ pipeline_events px_line ''Alt_Mean'' ''Alt_Mean'' ''std CO2''
           ''Full Dataset: Alt_Mean Over Time'' ''Alt_Mean Over Time in ''
           ''Standard Deviation of CO2 in '' ''line'' parse gas y m (heap st p)\<rparr>)"
  by (simp add: draw_time_series_def draw_unfold split: option.splits)

lemma draw_scatter_plot_eq:
  "draw_scatter_plot parse p gas y m st =
     (pipeline_error ''scatter'' parse gas y m (heap st p),
      (pipeline_store parse p y m st)
        \<lparr>trace := trace st @ pipeline_events px_scatter ''Alt_Mean'' ''Alt_Mean'' ''Alt_Mean''
           ''Full Dataset: Alt_Mean Over Time'' ''Alt_Mean Over Time in ''
           ''Alt_Mean Over Time in '' ''scatter'' parse gas y m (heap st p)\<rparr>)"
  by (simp add: draw_scatter_plot_def draw_unfold split: option.splits)

lemma draw_std_co2_scatter_plot_eq:
  "draw_std_co2_scatter_plot parse p gas y m st =
     (pipeline_error ''std_scatter'' parse gas y m (heap st p),
      (pipeline_store parse p y m st)
        \<lparr>trace := trace st @ pipeline_events px_scatter ''std CO2'' ''std CO2'' ''std CO2''
           ''Full Dataset: std CO2 Over Time'' ''std CO2 Over Time in ''
           ''std CO2 Over Time in '' ''std_scatter'' parse gas y m (heap st p)\<rparr>)"
  by (simp add: draw_std_co2_scatter_plot_def draw_unfold split: option.splits)

lemma three_draws_cases:
  assumes "draw \<in> {draw_time_series, draw_scatter_plot, draw_std_co2_scatter_plot}"
  obtains "draw = draw_time_series" | "draw = draw_scatter_plot"
    | "draw = draw_std_co2_scatter_plot"
  using assms by auto

lemma charts_pipeline_events:
  "map fig_data (charts (pipeline_events px y0 y1 y2 t0 t1 t2 ct parse gas y m table)) =
     (case y of
        None \<Rightarrow> (case m of None \<Rightarrow> [fig_data (px (cleaned parse table) ''date'' y0 t0)] | Some k \<Rightarrow> [])
      | Some yy \<Rightarrow>
          (if matching_rows parse yy m table = [] then []
           else [fig_data (px (matching_rows parse yy m table) ''date''
                   (case m of None \<Rightarrow> y1 | Some k \<Rightarrow> y2)
                   (case m of None \<Rightarrow> t1 @ str_int yy | Some k \<Rightarrow> t2 @ str_int k @ '' '' @ str_int yy))]))"
  by (simp add: pipeline_events_def story_events_def charts_append
      split: option.splits sum.splits)

lemma pipeline_error_ok:
  assumes "case m of None \<Rightarrow> True | Some k \<Rightarrow> 1 \<le> k \<and> k \<le> 12"
  shows "pipeline_error ct parse gas y m table = None"
  using assms generate_story_ok [of m]
  by (simp add: pipeline_error_def generate_story_ok split: option.splits)

lemma pipeline_store_heap_self:
  "p \<noteq> next_ref st \<Longrightarrow> heap (pipeline_store parse p y m st) p = cleaned parse (heap st p)"
  by (simp add: pipeline_store_def split: option.splits)

lemma pipeline_store_heap_other:
  "q \<noteq> next_ref st \<Longrightarrow> q \<noteq> p \<Longrightarrow> heap (pipeline_store parse p y m st) q = heap st q"
  by (simp add: pipeline_store_def split: option.splits)

lemma pipeline_store_next_ref:
  "next_ref (pipeline_store parse p y m st) =
     (case y of None \<Rightarrow> next_ref st | Some yy \<Rightarrow> Suc (next_ref st))"
  by (simp add: pipeline_store_def split: option.splits)

lemma pipeline_store_fresh:
  "heap (pipeline_store parse p (Some yy) m st) (next_ref st) = matching_rows parse yy m (heap st p)"
  by (simp add: pipeline_store_def)

lemma pipeline_store_trace: "trace (pipeline_store parse p y m st) = trace st"
  by (simp add: pipeline_store_def split: option.splits)

subsection \<open>The selectors, dataset retrieval and the orchestrator\<close>

lemma selectbox_eq:
  "selectbox label options pick st =
     ((if pick < length options then options ! pick else hd options),
      st\<lparr>trace := trace st @ [Selectbox label]\<rparr>)"
  by (simp add: selectbox_def emit_def)

lemma select_gas_eq:
  "select_gas pick st =
     ((if pick = 1 then ''co2'' else ''select gas''),
      st\<lparr>trace := trace st @ [Selectbox ''Select Gas'']\<rparr>)"
proof -
  consider "pick = 0" | "pick = 1" | "2 \<le> pick" by linarith
  then show ?thesis
    by cases (simp_all add: select_gas_def selectbox_eq gas_names_lower)
qed

lemma select_year_eq:
  "select_year now_year pick st =
     (picked_year now_year pick, st\<lparr>trace := trace st @ [Selectbox ''Select Year'']\<rparr>)"
  by (simp add: picked_year_def select_year_def selectbox_eq)

lemma select_month_eq:
  "select_month pick st =
     (picked_month pick, st\<lparr>trace := trace st @ [Selectbox ''Select Month'']\<rparr>)"
  by (simp add: picked_month_def select_month_def selectbox_eq)

lemma month_dict_range:
  "map_of month_dict c = None \<or> (\<exists>k. map_of month_dict c = Some k \<and> 1 \<le> k \<and> k \<le> 12)"
  by (simp add: month_dict_def)

lemma picked_month_range:
  "case picked_month pick of None \<Rightarrow> True | Some k \<Rightarrow> 1 \<le> k \<and> k \<le> 12"
proof -
  have "picked_month pick = None \<or> (\<exists>k. picked_month pick = Some k \<and> 1 \<le> k \<and> k \<le> 12)"
    unfolding picked_month_def select_month_def selectbox_eq split_def Let_def fst_conv
    by (rule month_dict_range)
  then show ?thesis by (auto split: option.splits)
qed

lemmas picked_month_no_error = pipeline_error_ok [OF picked_month_range]

lemma get_data_source_eq:
  "get_data_source fs selected_gas st =
     (if selected_gas = ''select gas'' then (Inr None, st)
      else case fs (''data/'' @ selected_gas @ ''.csv'') of
             None \<Rightarrow>
               (Inr None,
                st\<lparr>trace := trace st @
                     [Open_file (''data/'' @ selected_gas @ ''.csv''),
                      Error (''No file found for '' @ selected_gas)]\<rparr>)
           | Some table \<Rightarrow>
               (Inr (Some (next_ref st)),
                st\<lparr>heap := (heap st)(next_ref st := table), next_ref := Suc (next_ref st),
                   trace := trace st @ [Open_file (''data/'' @ selected_gas @ ''.csv'')]\<rparr>))"
  by (simp add: get_data_source_def data_reader_def new_frame_def emit_def Let_def
      split: option.splits)

lemma main_unfold:
  "main fs parse now_year user st =
     (let st1 = st\<lparr>trace := trace st @
                   [Title ''Atmospheric Gases Concentration Dashboard'', Selectbox ''Select Gas'',
                    Selectbox ''Select Year'', Selectbox ''Select Month'']\<rparr>;
          selected_gas = (if gas_pick user = 1 then ''co2'' else ''select gas'');
          selected_year = picked_year now_year (year_pick user);
          selected_month = picked_month (month_pick user)
      in if selected_gas = ''select gas'' then
           (None, st1\<lparr>trace := trace st1 @ [Info ''Please select a gas to start.'']\<rparr>)
         else
           (case get_data_source fs selected_gas st1 of
              (Inl e, st) \<Rightarrow> (Some e, st)
            | (Inr None, st) \<Rightarrow> (None, st)
            | (Inr (Some df), st) \<Rightarrow>
                (case draw_time_series parse df selected_gas selected_year selected_month st of
                   (Some e, st) \<Rightarrow> (Some e, st)
                 | (None, st) \<Rightarrow>
                     (case draw_scatter_plot parse df selected_gas selected_year selected_month st of
                        (Some e, st) \<Rightarrow> (Some e, st)
                      | (None, st) \<Rightarrow>
                          draw_std_co2_scatter_plot parse df selected_gas selected_year
                            selected_month st))))"
  by (simp add: main_def select_gas_eq select_year_eq select_month_eq Let_def emit_def)

lemma main_no_exception: "fst (main fs parse now_year user st) = None"
  by (simp add: main_unfold get_data_source_eq draw_time_series_eq draw_scatter_plot_eq
      draw_std_co2_scatter_plot_eq picked_month_no_error Let_def split: option.splits)

subsection \<open>The example dataset\<close>

lemma example_member:
  "draw_time_series \<in>
     {draw_time_series, draw_scatter_plot, (draw_std_co2_scatter_plot ::
        (string \<Rightarrow> timestamp option) \<Rightarrow> nat \<Rightarrow> string \<Rightarrow> int option \<Rightarrow> int option \<Rightarrow> int state
          \<Rightarrow> py_error option \<times> int state)}"
  by simp

lemma example_state_simps:
  "heap example_state 0 = example_table" "trace example_state = []"
  "next_ref example_state = 1"
  by (simp_all add: example_state_def)

lemmas example_eval =
  matching_rows_def matches_def cleaned_def example_parse_def example_table_def
  date_parses_def to_datetime_def dt_year_def dt_month_def clean_row_def

lemma example_strings:
  "str_nat (Suc 0) = ''1''" "str_nat (Suc (Suc 0)) = ''2''" "str_nat 3 = ''3''"
  "str_int 2015 = ''2015''" "str_int 2016 = ''2016''"
  by (simp_all add: str_int_def str_nat_digit str_nat_step digit_char_def char_of_eq_iff)

section \<open>The properties\<close>

text \<open>
  C1. For every dataset and every selection, each of the three pipelines charts exactly
  the rows whose date parses and whose derived year is the selected year (and whose month
  is the selected month, when one is selected), in the order of the dataset, and no
  chart when there is no such row; with neither a year nor a month it charts the full
  cleaned dataset.
\<close>

theorem filtered_rows_are_matching_rows:
  assumes "draw \<in> {draw_time_series, draw_scatter_plot, draw_std_co2_scatter_plot}"
  shows "map fig_data (charts (trace (snd (draw parse p gas None None st)))) =
           map fig_data (charts (trace st)) @ [cleaned parse (heap st p)]
         \<and> map fig_data (charts (trace (snd (draw parse p gas (Some y) m st)))) =
           map fig_data (charts (trace st)) @
             (if matching_rows parse y m (heap st p) = [] then []
              else [matching_rows parse y m (heap st p)])"
proof -
  from assms consider "draw = draw_time_series" | "draw = draw_scatter_plot"
    | "draw = draw_std_co2_scatter_plot" by auto
  then show ?thesis
  proof cases
    case 1
    then show ?thesis
      by (simp add: draw_time_series_eq charts_append charts_pipeline_events px_line_def)
  next
    case 2
    then show ?thesis
      by (simp add: draw_scatter_plot_eq charts_append charts_pipeline_events px_scatter_def)
  next
    case 3
    then show ?thesis
      by (simp add: draw_std_co2_scatter_plot_eq charts_append charts_pipeline_events
          px_scatter_def)
  qed
qed

theorem filtered_rows_are_matching_rows_witness:
  "draw_scatter_plot \<in> {draw_time_series, draw_scatter_plot, draw_std_co2_scatter_plot}
   \<and> map fig_data (charts (trace (snd (draw_scatter_plot example_parse 0 ''co2'' (Some 2015) None
         example_state)))) =
     [[\<lparr>col_date = Stamp \<lparr>ts_year = 2015, ts_month = 1, ts_day = 1\<rparr>,
          col_Alt_Mean = 400, col_std_CO2 = 1, col_year = Some 2015\<rparr>,
       \<lparr>col_date = Stamp \<lparr>ts_year = 2015, ts_month = 6, ts_day = 15\<rparr>,
          col_Alt_Mean = 402, col_std_CO2 = 2, col_year = Some 2015\<rparr>]]"
proof -
  have member: "draw_scatter_plot \<in>
      {draw_time_series, draw_scatter_plot, (draw_std_co2_scatter_plot ::
         (string \<Rightarrow> timestamp option) \<Rightarrow> nat \<Rightarrow> string \<Rightarrow> int option \<Rightarrow> int option \<Rightarrow> int state
           \<Rightarrow> py_error option \<times> int state)}"
    by simp
  have rows: "matching_rows example_parse 2015 None example_table =
     [\<lparr>col_date = Stamp \<lparr>ts_year = 2015, ts_month = 1, ts_day = 1\<rparr>,
        col_Alt_Mean = 400, col_std_CO2 = 1, col_year = Some 2015\<rparr>,
      \<lparr>col_date = Stamp \<lparr>ts_year = 2015, ts_month = 6, ts_day = 15\<rparr>,
        col_Alt_Mean = 402, col_std_CO2 = 2, col_year = Some 2015\<rparr>]"
    by (simp add: matching_rows_def matches_def example_parse_def example_table_def
        date_parses_def to_datetime_def dt_year_def clean_row_def)
  from filtered_rows_are_matching_rows [OF member, of example_parse 0 "''co2''" example_state 2015 None]
  have "map fig_data (charts (trace (snd (draw_scatter_plot example_parse 0 ''co2'' (Some 2015) None
         example_state)))) =
     map fig_data (charts (trace example_state)) @
       (if matching_rows example_parse 2015 None (heap example_state 0) = [] then []
        else [matching_rows example_parse 2015 None (heap example_state 0)])"
    by simp
  moreover have "heap example_state 0 = example_table" "trace example_state = []"
    by (simp_all add: example_state_def)
  ultimately show ?thesis using member rows by simp
qed

text \<open>
  C2. In every branch of every pipeline that charts rows, the story written beneath the
  chart reports the number of the rows charted. With a year selected (and a month from
  1 to 12, when one is selected) and at least one matching row, the call adds to the
  screen exactly one chart, whose data are the matching rows, and then one story: the
  one \<open>generate_story\<close> gives for those very rows, whose text holds the decimal numeral
  of their number as its count. With neither a year nor a month selected it is so for
  the full cleaned dataset. No other number is written as that numeral. (A year 0, which
  the selector never offers, counts as false in \<open>generate_story\<close> and gets the wording of
  the full dataset, with the same count.)
\<close>

theorem story_counts_charted_rows:
  fixes st :: "'v state"
  assumes "(draw, ct, label) \<in>
             {(draw_time_series, ''line'', ''Line Chart''),
              (draw_scatter_plot, ''scatter'', ''Scatter Plot''),
              (draw_std_co2_scatter_plot, ''std_scatter'', ''Standard Deviation Scatter Plot'')}"
    and "matching_rows parse y m (heap st p) \<noteq> []"
    and "case m of None \<Rightarrow> True | Some k \<Rightarrow> 1 \<le> k \<and> k \<le> 12"
  shows "(\<exists>fig story.
            trace (snd (draw parse p gas (Some y) m st)) =
              trace st @ [Plotly_chart fig True, Write story]
            \<and> fst (draw parse p gas (Some y) m st) = None
            \<and> fig_data fig = matching_rows parse y m (heap st p)
            \<and> generate_story (fig_data fig) gas (Some y) m (Some ct) = Inr story
            \<and> story =
                (if y = 0 then
                   ''The '' @ label @ '' covers the full dataset with ''
                   @ str_nat (length (fig_data fig)) @ '' records for '' @ upper gas
                   @ ''. This chart provides a comprehensive overview of {gas_name} concentrations over the entire recorded period, allowing us to observe both seasonal and longer-term trends.''
                 else
                   (case m of
                      None \<Rightarrow>
                        ''The '' @ label @ '' highlights the '' @ upper gas
                        @ '' levels recorded in '' @ str_int y @ ''. There are ''
                        @ str_nat (length (fig_data fig)) @ '' data points representing ''
                        @ upper gas
                        @ '' concentration changes over the year. This visualization captures the yearly fluctuation and trends in gas concentration.''
                    | Some k \<Rightarrow>
                        ''The '' @ label @ '' represents the concentration of '' @ upper gas
                        @ '' during '' @ month_names ! nat (k - 1) @ '' '' @ str_int y
                        @ ''. The dataset contains '' @ str_nat (length (fig_data fig))
                        @ '' data points for this time period, showing how the concentration of ''
                        @ upper gas @ '' varied across this month.''))
            \<and> (\<forall>n. str_nat n = str_nat (length (fig_data fig)) \<longrightarrow> n = length (fig_data fig)))
         \<and> (\<exists>fig story.
            trace (snd (draw parse p gas None None st)) =
              trace st @ [Plotly_chart fig True, Write story]
            \<and> fst (draw parse p gas None None st) = None
            \<and> fig_data fig = cleaned parse (heap st p)
            \<and> generate_story (fig_data fig) gas None None (Some ct) = Inr story
            \<and> story =
                ''The '' @ label @ '' covers the full dataset with ''
                @ str_nat (length (fig_data fig)) @ '' records for '' @ upper gas
                @ ''. This chart provides a comprehensive overview of {gas_name} concentrations over the entire recorded period, allowing us to observe both seasonal and longer-term trends.''
            \<and> (\<forall>n. str_nat n = str_nat (length (fig_data fig)) \<longrightarrow> n = length (fig_data fig)))"
proof -
  have numeral: "\<forall>n. str_nat n = str_nat (length rows) \<longrightarrow> n = length rows"
    for rows :: "'v dataframe"
    by (blast dest: str_nat_inject)
  have month: "datetime 2000 k 1 = Inr \<lparr>ts_year = 2000, ts_month = k, ts_day = 1\<rparr>"
    if "m = Some k" for k
    using that assms(3) by (simp add: datetime_2000_month)
  from assms(1) consider
      "draw = draw_time_series" "ct = ''line''" "label = ''Line Chart''"
    | "draw = draw_scatter_plot" "ct = ''scatter''" "label = ''Scatter Plot''"
    | "draw = draw_std_co2_scatter_plot" "ct = ''std_scatter''"
      "label = ''Standard Deviation Scatter Plot''"
    by auto
  then show ?thesis
  proof cases
    case 1
    with assms(2) assms(3) show ?thesis
      by (cases m)
        (simp_all add: draw_time_series_eq pipeline_events_def pipeline_error_def
          story_events_def story_error_def generate_story_def truthy_def py_str_def Let_def
          strftime_B_def month numeral px_line_def)
  next
    case 2
    with assms(2) assms(3) show ?thesis
      by (cases m)
        (simp_all add: draw_scatter_plot_eq pipeline_events_def pipeline_error_def
          story_events_def story_error_def generate_story_def truthy_def py_str_def Let_def
          strftime_B_def month numeral px_scatter_def)
  next
    case 3
    with assms(2) assms(3) show ?thesis
      by (cases m)
        (simp_all add: draw_std_co2_scatter_plot_eq pipeline_events_def pipeline_error_def
          story_events_def story_error_def generate_story_def truthy_def py_str_def Let_def
          strftime_B_def month numeral px_scatter_def)
  qed
qed

theorem story_counts_charted_rows_witness:
  "(draw_time_series, ''line'', ''Line Chart'') \<in>
      {(draw_time_series, ''line'', ''Line Chart''),
       (draw_scatter_plot, ''scatter'', ''Scatter Plot''),
       (draw_std_co2_scatter_plot, ''std_scatter'', ''Standard Deviation Scatter Plot'')}
   \<and> matching_rows example_parse 2016 (Some 2) (heap example_state 0) \<noteq> []
   \<and> (case Some (2 :: int) of None \<Rightarrow> True | Some k \<Rightarrow> 1 \<le> k \<and> k \<le> 12)
   \<and> (\<exists>fig :: int figure.
         fig_data fig =
           [\<lparr>col_date = Stamp \<lparr>ts_year = 2016, ts_month = 2, ts_day = 10\<rparr>,
              col_Alt_Mean = 404, col_std_CO2 = 3, col_year = Some 2016\<rparr>]
         \<and> trace (snd (draw_time_series example_parse 0 ''co2'' (Some 2016) (Some 2)
               example_state)) =
             trace example_state @
               [Plotly_chart fig True,
                Write ''The Line Chart represents the concentration of CO2 during February 2016. The dataset contains 1 data points for this time period, showing how the concentration of CO2 varied across this month.''])
   \<and> (\<exists>fig :: int figure.
         length (fig_data fig) = 3
         \<and> trace (snd (draw_time_series example_parse 0 ''co2'' None None example_state)) =
             trace example_state @
               [Plotly_chart fig True,
                Write ''The Line Chart covers the full dataset with 3 records for CO2. This chart provides a comprehensive overview of {gas_name} concentrations over the entire recorded period, allowing us to observe both seasonal and longer-term trends.''])"
proof -
  have member: "(draw_time_series, ''line'', ''Line Chart'') \<in>
      {(draw_time_series, ''line'', ''Line Chart''),
       (draw_scatter_plot, ''scatter'', ''Scatter Plot''),
       ((draw_std_co2_scatter_plot ::
          (string \<Rightarrow> timestamp option) \<Rightarrow> nat \<Rightarrow> string \<Rightarrow> int option \<Rightarrow> int option \<Rightarrow> int state
            \<Rightarrow> py_error option \<times> int state),
        ''std_scatter'', ''Standard Deviation Scatter Plot'')}"
    by simp
  have rows: "matching_rows example_parse 2016 (Some 2) (heap example_state 0) =
      [\<lparr>col_date = Stamp \<lparr>ts_year = 2016, ts_month = 2, ts_day = 10\<rparr>,
         col_Alt_Mean = 404, col_std_CO2 = 3, col_year = Some 2016\<rparr>]"
    by (simp add: example_state_simps example_eval)
  then have some: "matching_rows example_parse 2016 (Some 2) (heap example_state 0) \<noteq> []"
    by simp
  have month: "case Some (2 :: int) of None \<Rightarrow> True | Some k \<Rightarrow> 1 \<le> k \<and> k \<le> 12"
    by simp
  have full: "length (cleaned example_parse (heap example_state 0)) = 3"
    by (simp add: example_state_simps example_eval)
  note inst = story_counts_charted_rows [OF member some month, where gas = "''co2''"]
  show ?thesis
    using inst rows full
    apply -
    apply (elim conjE exE)
    apply (simp add: example_strings gas_names_lower month_names_def)
    done
qed

text \<open>
  C3. In every pipeline, when the selected year (with or without a selected month)
  matches no row of the dataset, the call adds one warning to the screen and nothing
  else: no chart, no story, no exception.
\<close>

theorem empty_selection_warns_only:
  assumes "draw \<in> {draw_time_series, draw_scatter_plot, draw_std_co2_scatter_plot}"
    and "matching_rows parse y m (heap st p) = []"
  shows "fst (draw parse p gas (Some y) m st) = None
         \<and> trace (snd (draw parse p gas (Some y) m st)) =
             trace st @
               [Warning (case m of
                           None \<Rightarrow> ''No data available for the selected year.''
                         | Some k \<Rightarrow> ''No data available for the selected month and year.'')]"
  using assms(1)
proof (cases rule: three_draws_cases)
  case 1
  with assms(2) show ?thesis
    by (cases m) (simp_all add: draw_time_series_eq pipeline_events_def pipeline_error_def)
next
  case 2
  with assms(2) show ?thesis
    by (cases m) (simp_all add: draw_scatter_plot_eq pipeline_events_def pipeline_error_def)
next
  case 3
  with assms(2) show ?thesis
    by (cases m) (simp_all add: draw_std_co2_scatter_plot_eq pipeline_events_def pipeline_error_def)
qed

theorem empty_selection_warns_only_witness:
  "draw_time_series \<in> {draw_time_series, draw_scatter_plot, draw_std_co2_scatter_plot}
   \<and> matching_rows example_parse 2016 (Some 3) (heap example_state 0) = []
   \<and> fst (draw_time_series example_parse 0 ''co2'' (Some 2016) (Some 3) example_state) = None
   \<and> trace (snd (draw_time_series example_parse 0 ''co2'' (Some 2016) (Some 3) example_state)) =
       [Warning ''No data available for the selected month and year.'']"
proof -
  have none: "matching_rows example_parse 2016 (Some 3) (heap example_state 0) = []"
    by (simp add: example_state_simps example_eval)
  from empty_selection_warns_only [OF example_member none, of "''co2''"]
  show ?thesis using none by (simp add: example_state_simps)
qed

text \<open>
  C4. In the branch with a year and a month, the line-chart pipeline charts column
  \<^verbatim>\<open>std CO2\<close>, the scatter pipeline \<^verbatim>\<open>Alt_Mean\<close> and the std-scatter pipeline
  \<^verbatim>\<open>std CO2\<close>; in the branch with a year only, they chart \<^verbatim>\<open>Alt_Mean\<close>,
  \<^verbatim>\<open>Alt_Mean\<close> and \<^verbatim>\<open>std CO2\<close>. (No chart is drawn when no row matches.)
\<close>

theorem year_month_branch_y_columns:
  "map fig_y (charts (trace (snd (draw_time_series parse p gas (Some y) (Some m) st)))) =
     map fig_y (charts (trace st)) @
       (if matching_rows parse y (Some m) (heap st p) = [] then [] else [''std CO2''])
   \<and> map fig_y (charts (trace (snd (draw_scatter_plot parse p gas (Some y) (Some m) st)))) =
     map fig_y (charts (trace st)) @
       (if matching_rows parse y (Some m) (heap st p) = [] then [] else [''Alt_Mean''])
   \<and> map fig_y (charts (trace (snd (draw_std_co2_scatter_plot parse p gas (Some y) (Some m) st)))) =
     map fig_y (charts (trace st)) @
       (if matching_rows parse y (Some m) (heap st p) = [] then [] else [''std CO2''])
   \<and> map fig_y (charts (trace (snd (draw_time_series parse p gas (Some y) None st)))) =
     map fig_y (charts (trace st)) @
       (if matching_rows parse y None (heap st p) = [] then [] else [''Alt_Mean''])
   \<and> map fig_y (charts (trace (snd (draw_scatter_plot parse p gas (Some y) None st)))) =
     map fig_y (charts (trace st)) @
       (if matching_rows parse y None (heap st p) = [] then [] else [''Alt_Mean''])
   \<and> map fig_y (charts (trace (snd (draw_std_co2_scatter_plot parse p gas (Some y) None st)))) =
     map fig_y (charts (trace st)) @
       (if matching_rows parse y None (heap st p) = [] then [] else [''std CO2''])"
  by (simp add: draw_time_series_eq draw_scatter_plot_eq draw_std_co2_scatter_plot_eq
      charts_append pipeline_events_def story_events_def px_line_def px_scatter_def
      split: sum.splits)

theorem year_month_branch_y_columns_witness:
  "map fig_y (charts (trace (snd (draw_time_series example_parse 0 ''co2'' (Some 2016) (Some 2)
      example_state)))) = [''std CO2'']
   \<and> map fig_y (charts (trace (snd (draw_scatter_plot example_parse 0 ''co2'' (Some 2016) (Some 2)
      example_state)))) = [''Alt_Mean'']
   \<and> map fig_y (charts (trace (snd (draw_std_co2_scatter_plot example_parse 0 ''co2'' (Some 2016)
      (Some 2) example_state)))) = [''std CO2'']"
proof -
  have some: "matching_rows example_parse 2016 (Some 2) (heap example_state 0) \<noteq> []"
    by (simp add: example_state_simps example_eval)
  from year_month_branch_y_columns [of example_parse 0 "''co2''" 2016 2 example_state]
  show ?thesis using some by (simp add: example_state_simps)
qed

text \<open>
  C5. When the gas selection is the placeholder, a run draws the title and the three
  selectors, shows the informational message and ends: the store is as before, no file
  is opened and no pipeline runs (nothing else is added to the trace). Dataset retrieval
  itself, given the placeholder, returns no dataset and opens no file.
\<close>

theorem placeholder_gas_only_informs:
  assumes "fst (select_gas (gas_pick user) st) = ''select gas''"
  shows "main fs parse now_year user st =
           (None,
            st\<lparr>trace := trace st @
                 [Title ''Atmospheric Gases Concentration Dashboard'', Selectbox ''Select Gas'',
                  Selectbox ''Select Year'', Selectbox ''Select Month'',
                  Info ''Please select a gas to start.'']\<rparr>)
         \<and> get_data_source fs ''select gas'' st = (Inr None, st)"
proof -
  from assms have "gas_pick user \<noteq> 1"
    by (auto simp: select_gas_eq)
  then show ?thesis
    by (simp add: main_unfold get_data_source_eq)
qed

theorem placeholder_gas_only_informs_witness:
  "fst (select_gas (gas_pick \<lparr>gas_pick = 0, year_pick = 16, month_pick = 3\<rparr>) empty_state) =
     ''select gas''
   \<and> main example_fs example_parse 2026 \<lparr>gas_pick = 0, year_pick = 16, month_pick = 3\<rparr> empty_state =
     (None,
      empty_state\<lparr>trace := trace empty_state @
         [Title ''Atmospheric Gases Concentration Dashboard'', Selectbox ''Select Gas'',
          Selectbox ''Select Year'', Selectbox ''Select Month'',
          Info ''Please select a gas to start.'']\<rparr>)
   \<and> get_data_source example_fs ''select gas'' empty_state = (Inr None, empty_state)"
proof -
  have placeholder:
    "fst (select_gas (gas_pick \<lparr>gas_pick = 0, year_pick = 16, month_pick = 3\<rparr>) empty_state) =
       ''select gas''"
    by (simp add: select_gas_eq)
  from placeholder_gas_only_informs [OF placeholder, of example_fs example_parse 2026]
  show ?thesis using placeholder by simp
qed

text \<open>
  C6. For every gas name other than the placeholder whose file \<^verbatim>\<open>data/<gas>.csv\<close> does
  not exist, dataset retrieval opens that path, shows the error message naming the gas
  and returns no dataset; and a run in which that gas is the selected one ends there: it
  adds nothing after the error message, so no pipeline runs.
\<close>

theorem missing_file_reports_error:
  assumes "selected_gas \<noteq> ''select gas''"
    and "fs (''data/'' @ selected_gas @ ''.csv'') = None"
  shows "get_data_source fs selected_gas st =
           (Inr None,
            st\<lparr>trace := trace st @
                 [Open_file (''data/'' @ selected_gas @ ''.csv''),
                  Error (''No file found for '' @ selected_gas)]\<rparr>)
         \<and> (fst (select_gas (gas_pick user) st) = selected_gas \<longrightarrow>
              main fs parse now_year user st =
                (None,
                 st\<lparr>trace := trace st @
                      [Title ''Atmospheric Gases Concentration Dashboard'',
                       Selectbox ''Select Gas'', Selectbox ''Select Year'',
                       Selectbox ''Select Month'',
                       Open_file (''data/'' @ selected_gas @ ''.csv''),
                       Error (''No file found for '' @ selected_gas)]\<rparr>))"
proof (intro conjI impI)
  from assms show "get_data_source fs selected_gas st =
           (Inr None,
            st\<lparr>trace := trace st @
                 [Open_file (''data/'' @ selected_gas @ ''.csv''),
                  Error (''No file found for '' @ selected_gas)]\<rparr>)"
    by (simp add: get_data_source_eq)
next
  assume "fst (select_gas (gas_pick user) st) = selected_gas"
  with assms(1) have pick: "gas_pick user = 1" and gas: "selected_gas = ''co2''"
    by (auto simp: select_gas_eq split: if_splits)
  from assms(2) gas have "fs ''data/co2.csv'' = None" by simp
  with pick gas show "main fs parse now_year user st =
                (None,
                 st\<lparr>trace := trace st @
                      [Title ''Atmospheric Gases Concentration Dashboard'',
                       Selectbox ''Select Gas'', Selectbox ''Select Year'',
                       Selectbox ''Select Month'',
                       Open_file (''data/'' @ selected_gas @ ''.csv''),
                       Error (''No file found for '' @ selected_gas)]\<rparr>)"
    by (simp add: main_unfold get_data_source_eq)
qed

theorem missing_file_reports_error_witness:
  "''co2'' \<noteq> ''select gas''
   \<and> (Map.empty :: string \<rightharpoonup> int dataframe) (''data/'' @ ''co2'' @ ''.csv'') = None
   \<and> get_data_source Map.empty ''co2'' empty_state =
       (Inr None,
        empty_state\<lparr>trace := trace empty_state @
           [Open_file ''data/co2.csv'', Error ''No file found for co2'']\<rparr>)
   \<and> fst (select_gas (gas_pick \<lparr>gas_pick = 1, year_pick = 16, month_pick = 0\<rparr>) empty_state) =
       ''co2''
   \<and> main Map.empty example_parse 2026 \<lparr>gas_pick = 1, year_pick = 16, month_pick = 0\<rparr> empty_state =
       (None,
        empty_state\<lparr>trace := trace empty_state @
           [Title ''Atmospheric Gases Concentration Dashboard'', Selectbox ''Select Gas'',
            Selectbox ''Select Year'', Selectbox ''Select Month'',
            Open_file ''data/co2.csv'', Error ''No file found for co2'']\<rparr>)"
proof -
  have gas: "''co2'' \<noteq> ''select gas''"
    by simp
  have missing: "(Map.empty :: string \<rightharpoonup> int dataframe) (''data/'' @ ''co2'' @ ''.csv'') = None"
    by simp
  have picked:
    "fst (select_gas (gas_pick \<lparr>gas_pick = 1, year_pick = 16, month_pick = 0\<rparr>) empty_state) =
       ''co2''"
    by (simp add: select_gas_eq)
  from missing_file_reports_error [OF gas missing, of empty_state
      "\<lparr>gas_pick = 1, year_pick = 16, month_pick = 0\<rparr>" example_parse 2026]
  show ?thesis using picked by simp
qed

text \<open>
  C7. The month name of a story, \<^verbatim>\<open>datetime(2000, month, 1).strftime('%B')\<close>, is
  defined for each month 1 to 12 and is the English name of that month (outside 1 to 12
  the constructor raises \<^verbatim>\<open>ValueError\<close>); the story of a year and a month in that
  range holds that name; the month selector returns \<^verbatim>\<open>None\<close> or a month from 1 to
  12 whatever is picked; and no run of the orchestrator ends with an exception, so the
  derivation is never reached with a month outside the range.
\<close>

theorem month_name_total_and_in_range:
  "map (\<lambda>k. case datetime 2000 k 1 of Inl e \<Rightarrow> Inl e | Inr d \<Rightarrow> Inr (strftime_B d)) [1..12] =
     map Inr [''January'', ''February'', ''March'', ''April'', ''May'', ''June'',
              ''July'', ''August'', ''September'', ''October'', ''November'', ''December'']
   \<and> (k < 1 \<or> 12 < k \<longrightarrow> datetime 2000 k 1 = Inl ValueError)
   \<and> (1 \<le> k \<and> k \<le> 12 \<and> y \<noteq> 0 \<longrightarrow>
        generate_story df gas (Some y) (Some k) ct =
          Inr (''The '' @
               (if ct = Some ''line'' then ''Line Chart''
                else if ct = Some ''scatter'' then ''Scatter Plot''
                else if ct = Some ''std_scatter'' then ''Standard Deviation Scatter Plot''
                else ''Data Overview'')
               @ '' represents the concentration of '' @ upper gas @ '' during ''
               @ month_names ! nat (k - 1) @ '' '' @ str_int y
               @ ''. The dataset contains '' @ str_nat (length df)
               @ '' data points for this time period, showing how the concentration of ''
               @ upper gas @ '' varied across this month.''))
   \<and> (case fst (select_month pick st) of None \<Rightarrow> True | Some j \<Rightarrow> 1 \<le> j \<and> j \<le> 12)
   \<and> fst (main fs parse now_year user st) = None"
proof (intro conjI impI)
  show "map (\<lambda>k. case datetime 2000 k 1 of Inl e \<Rightarrow> Inl e | Inr d \<Rightarrow> Inr (strftime_B d)) [1..12] =
     map Inr [''January'', ''February'', ''March'', ''April'', ''May'', ''June'',
              ''July'', ''August'', ''September'', ''October'', ''November'', ''December'']"
    by (rule month_names_table)
next
  assume "k < 1 \<or> 12 < k"
  then show "datetime 2000 k 1 = Inl ValueError"
    by (auto simp: datetime_def)
next
  assume "1 \<le> k \<and> k \<le> 12 \<and> y \<noteq> 0"
  then show "generate_story df gas (Some y) (Some k) ct =
          Inr (''The '' @
               (if ct = Some ''line'' then ''Line Chart''
                else if ct = Some ''scatter'' then ''Scatter Plot''
                else if ct = Some ''std_scatter'' then ''Standard Deviation Scatter Plot''
                else ''Data Overview'')
               @ '' represents the concentration of '' @ upper gas @ '' during ''
               @ month_names ! nat (k - 1) @ '' '' @ str_int y
               @ ''. The dataset contains '' @ str_nat (length df)
               @ '' data points for this time period, showing how the concentration of ''
               @ upper gas @ '' varied across this month.'')"
    by (simp add: generate_story_def truthy_def datetime_2000_month strftime_B_def py_str_def
        Let_def)
next
  show "case fst (select_month pick st) of None \<Rightarrow> True | Some j \<Rightarrow> 1 \<le> j \<and> j \<le> 12"
    using picked_month_range [of pick] by (simp add: select_month_eq)
next
  show "fst (main fs parse now_year user st) = None"
    by (rule main_no_exception)
qed

theorem month_name_total_and_in_range_witness:
  "(1::int) \<le> 2 \<and> (2::int) \<le> 12 \<and> (2016::int) \<noteq> 0
   \<and> generate_story (matching_rows example_parse 2016 (Some 2) example_table) ''co2'' (Some 2016)
       (Some 2) (Some ''line'') =
     Inr ''The Line Chart represents the concentration of CO2 during February 2016. The dataset contains 1 data points for this time period, showing how the concentration of CO2 varied across this month.''
   \<and> ((13::int) < 1 \<or> (12::int) < 13) \<and> datetime 2000 13 1 = Inl ValueError
   \<and> fst (select_month 2 empty_state) = Some 2
   \<and> fst (main example_fs example_parse 2026 \<lparr>gas_pick = 1, year_pick = 17, month_pick = 2\<rparr>
         empty_state) = None"
proof -
  have range: "(1::int) \<le> 2 \<and> (2::int) \<le> 12 \<and> (2016::int) \<noteq> 0"
    by simp
  have outside: "(13::int) < 1 \<or> (12::int) < 13"
    by simp
  have rows: "length (matching_rows example_parse 2016 (Some 2) example_table) = Suc 0"
    by (simp add: example_eval)
  have picked: "fst (select_month 2 empty_state) = Some 2"
    by (simp add: select_month_def selectbox_eq month_dict_def)
  note inside = month_name_total_and_in_range
    [where k = 2 and y = 2016 and gas = "''co2''" and ct = "Some ''line''" and pick = 2
       and st = empty_state and fs = example_fs and parse = example_parse and now_year = 2026
       and user = "\<lparr>gas_pick = 1, year_pick = 17, month_pick = 2\<rparr>"
       and df = "matching_rows example_parse 2016 (Some 2) example_table"]
  note beyond = month_name_total_and_in_range
    [where k = 13 and y = 2016 and gas = "''co2''" and ct = "Some ''line''" and pick = 2
       and st = empty_state and fs = example_fs and parse = example_parse and now_year = 2026
       and user = "\<lparr>gas_pick = 1, year_pick = 17, month_pick = 2\<rparr>"
       and df = "matching_rows example_parse 2016 (Some 2) example_table"]
  from inside range rows
  have story: "generate_story (matching_rows example_parse 2016 (Some 2) example_table) ''co2''
       (Some 2016) (Some 2) (Some ''line'') =
     Inr ''The Line Chart represents the concentration of CO2 during February 2016. The dataset contains 1 data points for this time period, showing how the concentration of CO2 varied across this month.''"
    by (simp add: example_strings gas_names_lower month_names_def)
  from beyond outside have raises: "datetime 2000 13 1 = Inl ValueError"
    by simp
  from inside have run: "fst (main example_fs example_parse 2026
      \<lparr>gas_pick = 1, year_pick = 17, month_pick = 2\<rparr> empty_state) = None"
    by simp
  from range story outside raises picked run show ?thesis
    by simp
qed

text \<open>
  C8. With neither a year nor a month, the story is, for every dataframe, gas and chart
  type: a first sentence with the chart label, the number of rows and the gas name in
  upper case, and a second sentence that holds the text \<^verbatim>\<open>{gas_name}\<close> as it stands.
\<close>

theorem no_filter_story_text:
  "generate_story df gas None None ct =
     Inr (''The '' @
          (if ct = Some ''line'' then ''Line Chart''
           else if ct = Some ''scatter'' then ''Scatter Plot''
           else if ct = Some ''std_scatter'' then ''Standard Deviation Scatter Plot''
           else ''Data Overview'')
          @ '' covers the full dataset with '' @ str_nat (length df) @ '' records for ''
          @ upper gas
          @ ''. This chart provides a comprehensive overview of {gas_name} concentrations over the entire recorded period, allowing us to observe both seasonal and longer-term trends.'')"
  by (simp add: generate_story_def truthy_def)

theorem no_filter_story_text_witness:
  "generate_story (cleaned example_parse example_table) ''co2'' None None (Some ''line'') =
     Inr ''The Line Chart covers the full dataset with 3 records for CO2. This chart provides a comprehensive overview of {gas_name} concentrations over the entire recorded period, allowing us to observe both seasonal and longer-term trends.''"
proof -
  have "length (cleaned example_parse example_table) = 3"
    by (simp add: example_eval)
  then show ?thesis
    using no_filter_story_text [of "cleaned example_parse example_table" "''co2''" "Some ''line''"]
    by (simp add: example_strings gas_names_lower)
qed

text \<open>
  C9. With a month selected and no year, each of the three pipelines adds nothing to the
  screen (no chart, no story, no warning, no other message) and raises nothing.
\<close>

theorem month_without_year_renders_nothing:
  assumes "draw \<in> {draw_time_series, draw_scatter_plot, draw_std_co2_scatter_plot}"
  shows "fst (draw parse p gas None (Some m) st) = None
         \<and> trace (snd (draw parse p gas None (Some m) st)) = trace st"
  using assms
proof (cases rule: three_draws_cases)
  case 1
  then show ?thesis
    by (simp add: draw_time_series_eq pipeline_events_def pipeline_error_def)
next
  case 2
  then show ?thesis
    by (simp add: draw_scatter_plot_eq pipeline_events_def pipeline_error_def)
next
  case 3
  then show ?thesis
    by (simp add: draw_std_co2_scatter_plot_eq pipeline_events_def pipeline_error_def)
qed

theorem month_without_year_renders_nothing_witness:
  "draw_time_series \<in> {draw_time_series, draw_scatter_plot, draw_std_co2_scatter_plot}
   \<and> fst (draw_time_series example_parse 0 ''co2'' None (Some 6) example_state) = None
   \<and> trace (snd (draw_time_series example_parse 0 ''co2'' None (Some 6) example_state)) = []"
  using month_without_year_renders_nothing [OF example_member, of example_parse 0 "''co2''" 6
      example_state]
  by (simp add: example_state_simps)

text \<open>
  C10. A draw function works on the caller's dataframe itself: after the call the
  caller's reference holds the cleaned dataframe (dates as timestamps, rows with
  unparseable dates gone, the year column added), and every other dataframe in use is
  as before. The filtered subset of a selected year is a new dataframe, at a reference
  that was not in use. In a run of the orchestrator with the file present, the three
  pipelines are called on one reference: the first finds the table as loaded, the
  second and the third find it already cleaned.
\<close>

theorem draw_cleans_callers_dataframe:
  fixes st st0 :: "'v state"
  assumes "draw \<in> {draw_time_series, draw_scatter_plot, draw_std_co2_scatter_plot}"
    and "p < next_ref st"
  shows "heap (snd (draw parse p gas y m st)) p = cleaned parse (heap st p)
         \<and> (\<forall>q. q < next_ref st \<and> q \<noteq> p \<longrightarrow> heap (snd (draw parse p gas y m st)) q = heap st q)
         \<and> (case y of
               None \<Rightarrow> next_ref (snd (draw parse p gas y m st)) = next_ref st
             | Some yy \<Rightarrow>
                 next_ref (snd (draw parse p gas y m st)) = Suc (next_ref st) \<and>
                 heap (snd (draw parse p gas y m st)) (next_ref st) =
                   matching_rows parse yy m (heap st p))
         \<and> (fs ''data/co2.csv'' = Some table \<and> fst (select_gas (gas_pick user) st0) = ''co2'' \<longrightarrow>
              (let sel_year = fst (select_year now_year (year_pick user) st0);
                   sel_month = fst (select_month (month_pick user) st0);
                   df = next_ref st0;
                   st1 = snd (get_data_source fs ''co2''
                          (st0\<lparr>trace := trace st0 @
                             [Title ''Atmospheric Gases Concentration Dashboard'',
                              Selectbox ''Select Gas'', Selectbox ''Select Year'',
                              Selectbox ''Select Month'']\<rparr>));
                   st2 = snd (draw_time_series parse df ''co2'' sel_year sel_month st1);
                   st3 = snd (draw_scatter_plot parse df ''co2'' sel_year sel_month st2)
               in heap st1 df = table
                  \<and> heap st2 df = cleaned parse table
                  \<and> heap st3 df = cleaned parse table
                  \<and> main fs parse now_year user st0 =
                      draw_std_co2_scatter_plot parse df ''co2'' sel_year sel_month st3))"
proof -
  have store: "snd (draw parse p gas y m st) =
      (pipeline_store parse p y m st)\<lparr>trace := trace (snd (draw parse p gas y m st))\<rparr>"
    using assms(1)
    by (cases rule: three_draws_cases)
      (simp_all add: draw_time_series_eq draw_scatter_plot_eq draw_std_co2_scatter_plot_eq)
  have heap_eq: "heap (snd (draw parse p gas y m st)) = heap (pipeline_store parse p y m st)"
    and next_eq: "next_ref (snd (draw parse p gas y m st)) =
      next_ref (pipeline_store parse p y m st)"
    by (subst store, simp)+
  from assms(2) have self: "heap (snd (draw parse p gas y m st)) p = cleaned parse (heap st p)"
    by (simp add: heap_eq pipeline_store_heap_self)
  have others: "\<forall>q. q < next_ref st \<and> q \<noteq> p \<longrightarrow>
      heap (snd (draw parse p gas y m st)) q = heap st q"
    by (simp add: heap_eq pipeline_store_heap_other)
  have fresh: "case y of
               None \<Rightarrow> next_ref (snd (draw parse p gas y m st)) = next_ref st
             | Some yy \<Rightarrow>
                 next_ref (snd (draw parse p gas y m st)) = Suc (next_ref st) \<and>
                 heap (snd (draw parse p gas y m st)) (next_ref st) =
                   matching_rows parse yy m (heap st p)"
    using heap_eq next_eq
    by (cases y) (simp_all add: pipeline_store_next_ref pipeline_store_fresh)
  have run: "fs ''data/co2.csv'' = Some table \<and> fst (select_gas (gas_pick user) st0) = ''co2'' \<longrightarrow>
              (let sel_year = fst (select_year now_year (year_pick user) st0);
                   sel_month = fst (select_month (month_pick user) st0);
                   df = next_ref st0;
                   st1 = snd (get_data_source fs ''co2''
                          (st0\<lparr>trace := trace st0 @
                             [Title ''Atmospheric Gases Concentration Dashboard'',
                              Selectbox ''Select Gas'', Selectbox ''Select Year'',
                              Selectbox ''Select Month'']\<rparr>));
                   st2 = snd (draw_time_series parse df ''co2'' sel_year sel_month st1);
                   st3 = snd (draw_scatter_plot parse df ''co2'' sel_year sel_month st2)
               in heap st1 df = table
                  \<and> heap st2 df = cleaned parse table
                  \<and> heap st3 df = cleaned parse table
                  \<and> main fs parse now_year user st0 =
                      draw_std_co2_scatter_plot parse df ''co2'' sel_year sel_month st3)"
  proof
    assume present: "fs ''data/co2.csv'' = Some table \<and>
      fst (select_gas (gas_pick user) st0) = ''co2''"
    then have pick: "gas_pick user = 1"
      by (auto simp: select_gas_eq split: if_splits)
    from present pick show "let sel_year = fst (select_year now_year (year_pick user) st0);
                   sel_month = fst (select_month (month_pick user) st0);
                   df = next_ref st0;
                   st1 = snd (get_data_source fs ''co2''
                          (st0\<lparr>trace := trace st0 @
                             [Title ''Atmospheric Gases Concentration Dashboard'',
                              Selectbox ''Select Gas'', Selectbox ''Select Year'',
                              Selectbox ''Select Month'']\<rparr>));
                   st2 = snd (draw_time_series parse df ''co2'' sel_year sel_month st1);
                   st3 = snd (draw_scatter_plot parse df ''co2'' sel_year sel_month st2)
               in heap st1 df = table
                  \<and> heap st2 df = cleaned parse table
                  \<and> heap st3 df = cleaned parse table
                  \<and> main fs parse now_year user st0 =
                      draw_std_co2_scatter_plot parse df ''co2'' sel_year sel_month st3"
      by (simp add: Let_def main_unfold select_year_eq select_month_eq get_data_source_eq
          draw_time_series_eq draw_scatter_plot_eq picked_month_no_error
          pipeline_store_heap_self pipeline_store_next_ref pipeline_store_trace cleaned_idem
          split: option.splits)
  qed
  from self others fresh run show ?thesis
    by (intro conjI)
qed

theorem draw_cleans_callers_dataframe_witness:
  "draw_time_series \<in> {draw_time_series, draw_scatter_plot, draw_std_co2_scatter_plot}
   \<and> 0 < next_ref example_state
   \<and> heap (snd (draw_time_series example_parse 0 ''co2'' (Some 2015) None example_state)) 0 =
       [\<lparr>col_date = Stamp \<lparr>ts_year = 2015, ts_month = 1, ts_day = 1\<rparr>,
          col_Alt_Mean = 400, col_std_CO2 = 1, col_year = Some 2015\<rparr>,
        \<lparr>col_date = Stamp \<lparr>ts_year = 2015, ts_month = 6, ts_day = 15\<rparr>,
          col_Alt_Mean = 402, col_std_CO2 = 2, col_year = Some 2015\<rparr>,
        \<lparr>col_date = Stamp \<lparr>ts_year = 2016, ts_month = 2, ts_day = 10\<rparr>,
          col_Alt_Mean = 404, col_std_CO2 = 3, col_year = Some 2016\<rparr>]
   \<and> next_ref (snd (draw_time_series example_parse 0 ''co2'' (Some 2015) None example_state)) = 2
   \<and> heap (snd (draw_time_series example_parse 0 ''co2'' (Some 2015) None example_state)) 1 =
       [\<lparr>col_date = Stamp \<lparr>ts_year = 2015, ts_month = 1, ts_day = 1\<rparr>,
          col_Alt_Mean = 400, col_std_CO2 = 1, col_year = Some 2015\<rparr>,
        \<lparr>col_date = Stamp \<lparr>ts_year = 2015, ts_month = 6, ts_day = 15\<rparr>,
          col_Alt_Mean = 402, col_std_CO2 = 2, col_year = Some 2015\<rparr>]
   \<and> example_fs ''data/co2.csv'' = Some example_table
   \<and> fst (select_gas (gas_pick \<lparr>gas_pick = 1, year_pick = 16, month_pick = 0\<rparr>) empty_state) =
       ''co2''
   \<and> heap (snd (draw_time_series example_parse (next_ref empty_state) ''co2''
               (fst (select_year 2026 16 empty_state)) (fst (select_month 0 empty_state))
               (snd (get_data_source example_fs ''co2''
                  (empty_state\<lparr>trace := trace empty_state @
                     [Title ''Atmospheric Gases Concentration Dashboard'',
                      Selectbox ''Select Gas'', Selectbox ''Select Year'',
                      Selectbox ''Select Month'']\<rparr>)))))
        (next_ref empty_state) =
       cleaned example_parse example_table"
proof -
  have in_use: "0 < next_ref example_state"
    by (simp add: example_state_simps)
  have present: "example_fs ''data/co2.csv'' = Some example_table"
    by (simp add: example_fs_def)
  have picked:
    "fst (select_gas (gas_pick \<lparr>gas_pick = 1, year_pick = 16, month_pick = 0\<rparr>) empty_state) =
       ''co2''"
    by (simp add: select_gas_eq)
  note inst = draw_cleans_callers_dataframe
    [OF example_member in_use, where parse = example_parse and gas = "''co2''"
       and y = "Some 2015" and m = None and fs = example_fs and table = example_table
       and user = "\<lparr>gas_pick = 1, year_pick = 16, month_pick = 0\<rparr>" and ?st0.0 = empty_state
       and now_year = 2026]
  have cleaned: "cleaned example_parse example_table =
       [\<lparr>col_date = Stamp \<lparr>ts_year = 2015, ts_month = 1, ts_day = 1\<rparr>,
          col_Alt_Mean = 400, col_std_CO2 = 1, col_year = Some 2015\<rparr>,
        \<lparr>col_date = Stamp \<lparr>ts_year = 2015, ts_month = 6, ts_day = 15\<rparr>,
          col_Alt_Mean = 402, col_std_CO2 = 2, col_year = Some 2015\<rparr>,
        \<lparr>col_date = Stamp \<lparr>ts_year = 2016, ts_month = 2, ts_day = 10\<rparr>,
          col_Alt_Mean = 404, col_std_CO2 = 3, col_year = Some 2016\<rparr>]"
    by (simp add: example_eval)
  have matching: "matching_rows example_parse 2015 None example_table =
       [\<lparr>col_date = Stamp \<lparr>ts_year = 2015, ts_month = 1, ts_day = 1\<rparr>,
          col_Alt_Mean = 400, col_std_CO2 = 1, col_year = Some 2015\<rparr>,
        \<lparr>col_date = Stamp \<lparr>ts_year = 2015, ts_month = 6, ts_day = 15\<rparr>,
          col_Alt_Mean = 402, col_std_CO2 = 2, col_year = Some 2015\<rparr>]"
    by (simp add: example_eval)
  from inst have "heap (snd (draw_time_series example_parse 0 ''co2'' (Some 2015) None
        example_state)) 0 = cleaned example_parse example_table"
    and "next_ref (snd (draw_time_series example_parse 0 ''co2'' (Some 2015) None
        example_state)) = 2"
    and "heap (snd (draw_time_series example_parse 0 ''co2'' (Some 2015) None example_state)) 1 =
        matching_rows example_parse 2015 None example_table"
    by (simp_all add: example_state_simps)
  moreover from inst present picked
  have "heap (snd (draw_time_series example_parse (next_ref empty_state) ''co2''
               (fst (select_year 2026 16 empty_state)) (fst (select_month 0 empty_state))
               (snd (get_data_source example_fs ''co2''
                  (empty_state\<lparr>trace := trace empty_state @
                     [Title ''Atmospheric Gases Concentration Dashboard'',
                      Selectbox ''Select Gas'', Selectbox ''Select Year'',
                      Selectbox ''Select Month'']\<rparr>)))))
        (next_ref empty_state) =
       cleaned example_parse example_table"
    by (simp add: Let_def)
  ultimately show ?thesis
    using in_use present picked by (simp add: cleaned matching)
qed

end
